theory Spec2Isabelle
  imports Main "HOL-Library.Word"
begin

section \<open>The ring buffer of \<^verbatim>\<open>src/audio/audio_wrapper.h\<close>\<close>

text \<open>
  The header keeps the captured audio in a fixed array of 16-bit samples with two
  cursors and a fill count, all three \<^verbatim>\<open>unsigned int\<close>:
  \<^verbatim>\<open>
  #define RING_BUFFER_SIZE 48000 * 10  // 10 seconds at 48kHz

  typedef struct {
      int16_t data[RING_BUFFER_SIZE];
      unsigned int writePos;
      unsigned int readPos;
      unsigned int available;
  } ring_buffer_t;
  \<close>
  A sample is a \<open>16 word\<close>, an \<^verbatim>\<open>unsigned int\<close> a \<open>32 word\<close>. The array is a
  store from indices to samples; only the indices below \<open>480000\<close> exist in the C
  object, which is what \<open>rb_inv\<close> below records for the two cursors.
\<close>

type_synonym sample = "16 word"
type_synonym uint = "32 word"

record ring_buffer =
  data :: "nat \<Rightarrow> sample"
  writePos :: uint
  readPos :: uint
  available :: uint

text \<open>
  The macro is replaced token by token. As an array bound and as the right operand of
  \<^verbatim>\<open><\<close> its text \<^verbatim>\<open>48000 * 10\<close> is the number 480000:
  \<^verbatim>\<open>rb->available < 48000 * 10\<close>.
\<close>

definition RING_BUFFER_SIZE :: uint where
  "RING_BUFFER_SIZE = 48000 * 10"

text \<open>
  Both cursors are advanced by the statement
  \<^verbatim>\<open>pos = (pos + 1) % RING_BUFFER_SIZE;\<close>
  which, the macro having no parentheses of its own, the compiler reads as
  \<^verbatim>\<open>pos = (pos + 1) % 48000 * 10;\<close>
  In C the operators \<^verbatim>\<open>%\<close> and \<^verbatim>\<open>*\<close> have the same precedence and group from the
  left, so the new cursor is \<^verbatim>\<open>((pos + 1) % 48000) * 10\<close>. The addition is the
  wrapping addition of \<^verbatim>\<open>unsigned int\<close>.
\<close>

definition advance :: "uint \<Rightarrow> uint" where
  "advance pos = ((pos + 1) mod 48000) * 10"

text \<open>
  \<^verbatim>\<open>
  static void ring_buffer_init(ring_buffer_t* rb) {
      rb->writePos = 0;
      rb->readPos = 0;
      rb->available = 0;
  }
  \<close>
  The array is left as it was found.
\<close>

definition ring_buffer_init :: "ring_buffer \<Rightarrow> ring_buffer" where
  "ring_buffer_init rb = rb\<lparr>writePos := 0, readPos := 0, available := 0\<rparr>"

text \<open>
  \<^verbatim>\<open>
  static unsigned int ring_buffer_write(ring_buffer_t* rb, const int16_t* data,
                                       unsigned int samples) {
      unsigned int written = 0;
      while (written < samples && rb->available < RING_BUFFER_SIZE) {
          rb->data[rb->writePos] = data[written];
          rb->writePos = (rb->writePos + 1) % RING_BUFFER_SIZE;
          rb->available++;
          written++;
      }
      return written;
  }
  \<close>
  The caller's array \<^verbatim>\<open>data[0 .. samples - 1]\<close> is the list the loop walks through:
  the head of the remaining list is \<^verbatim>\<open>data[written]\<close>, and the loop ends when the list
  is used up (\<^verbatim>\<open>written = samples\<close>) or the buffer reports itself full. The counter
  never exceeds 480000, so a natural number holds it exactly.
\<close>

fun ring_buffer_write_loop :: "ring_buffer \<Rightarrow> sample list \<Rightarrow> nat \<Rightarrow> ring_buffer \<times> nat" where
  "ring_buffer_write_loop rb [] written = (rb, written)"
| "ring_buffer_write_loop rb (x # xs) written =
     (if available rb < RING_BUFFER_SIZE
      then ring_buffer_write_loop
             (rb\<lparr>data := (data rb)(unat (writePos rb) := x),
                 writePos := advance (writePos rb),
                 available := available rb + 1\<rparr>)
             xs (written + 1)
      else (rb, written))"

definition ring_buffer_write :: "ring_buffer \<Rightarrow> sample list \<Rightarrow> ring_buffer \<times> nat" where
  "ring_buffer_write rb xs = ring_buffer_write_loop rb xs 0"

text \<open>
  \<^verbatim>\<open>
  static unsigned int ring_buffer_read(ring_buffer_t* rb, int16_t* data,
                                      unsigned int samples) {
      unsigned int read = 0;
      while (read < samples && rb->available > 0) {
          data[read] = rb->data[rb->readPos];
          rb->readPos = (rb->readPos + 1) % RING_BUFFER_SIZE;
          rb->available--;
          read++;
      }
      return read;
  }
  \<close>
  The recursion is on the number of samples still asked for (\<^verbatim>\<open>samples - read\<close>). The
  result carries the samples stored into \<^verbatim>\<open>data[0], data[1], ...\<close> in that order; the
  count the C function returns is the length of that list.
\<close>

fun ring_buffer_read :: "ring_buffer \<Rightarrow> nat \<Rightarrow> ring_buffer \<times> sample list" where
  "ring_buffer_read rb 0 = (rb, [])"
| "ring_buffer_read rb (Suc n) =
     (if 0 < available rb
      then (case ring_buffer_read
                   (rb\<lparr>readPos := advance (readPos rb),
                       available := available rb - 1\<rparr>) n
            of (rb', out) \<Rightarrow> (rb', data rb (unat (readPos rb)) # out))
      else (rb, []))"

text \<open>
  The cursors of a buffer that \<open>ring_buffer_init\<close> has set up index the array, and the
  fill count does not exceed the advertised size.
\<close>

definition rb_inv :: "ring_buffer \<Rightarrow> bool" where
  "rb_inv rb \<longleftrightarrow>
     writePos rb < RING_BUFFER_SIZE \<and> readPos rb < RING_BUFFER_SIZE \<and>
     available rb \<le> RING_BUFFER_SIZE"

text \<open>A buffer with a zeroed array, for the concrete runs below.\<close>

definition silence :: "nat \<Rightarrow> sample" where
  "silence = (\<lambda>i. 0)"

definition fresh :: ring_buffer where
  "fresh = ring_buffer_init \<lparr>data = silence, writePos = 0, readPos = 0, available = 0\<rparr>"

subsection \<open>The loops with the size as a parameter\<close>

text \<open>
  The header fixes the size by the text of one macro, \<^verbatim>\<open>48000 * 10\<close>. A statement
  about a buffer of another capacity is a statement about the same two loops compiled
  with another text for \<^verbatim>\<open>RING_BUFFER_SIZE\<close>. Such a text is an integer literal,
  possibly followed by further factors: \<^verbatim>\<open>n\<close>, or \<^verbatim>\<open>n * k\<close>, and so on. It is kept
  as the first literal and the list of the factors after it, so the header's text is
  \<open>(48000, [10])\<close> and the text \<^verbatim>\<open>10\<close> is \<open>(10, [])\<close>.

  As the right operand of \<^verbatim>\<open><\<close> the text is the product of its factors. After
  \<^verbatim>\<open>(pos + 1) %\<close> its first literal is the modulus and the factors after it multiply
  the remainder, \<^verbatim>\<open>%\<close> and \<^verbatim>\<open>*\<close> grouping from the left.
\<close>

type_synonym size_text = "uint \<times> uint list"

definition text_value :: "size_text \<Rightarrow> uint" where
  "text_value t = foldl times (fst t) (snd t)"

definition advance_at :: "size_text \<Rightarrow> uint \<Rightarrow> uint" where
  "advance_at t pos = foldl times ((pos + 1) mod fst t) (snd t)"

text \<open>
  \<open>ring_buffer_write_loop_at\<close>, \<open>ring_buffer_write_at\<close> and \<open>ring_buffer_read_at\<close> are
  the loops of \<^verbatim>\<open>ring_buffer_write\<close> and \<^verbatim>\<open>ring_buffer_read\<close> quoted above, line by line,
  with the text of the macro as their first argument.
\<close>

fun ring_buffer_write_loop_at ::
  "size_text \<Rightarrow> ring_buffer \<Rightarrow> sample list \<Rightarrow> nat \<Rightarrow> ring_buffer \<times> nat" where
  "ring_buffer_write_loop_at t rb [] written = (rb, written)"
| "ring_buffer_write_loop_at t rb (x # xs) written =
     (if available rb < text_value t
      then ring_buffer_write_loop_at t
             (rb\<lparr>data := (data rb)(unat (writePos rb) := x),
                 writePos := advance_at t (writePos rb),
                 available := available rb + 1\<rparr>)
             xs (written + 1)
      else (rb, written))"

definition ring_buffer_write_at ::
  "size_text \<Rightarrow> ring_buffer \<Rightarrow> sample list \<Rightarrow> ring_buffer \<times> nat" where
  "ring_buffer_write_at t rb xs = ring_buffer_write_loop_at t rb xs 0"

fun ring_buffer_read_at :: "size_text \<Rightarrow> ring_buffer \<Rightarrow> nat \<Rightarrow> ring_buffer \<times> sample list" where
  "ring_buffer_read_at t rb 0 = (rb, [])"
| "ring_buffer_read_at t rb (Suc n) =
     (if 0 < available rb
      then (case ring_buffer_read_at t
                   (rb\<lparr>readPos := advance_at t (readPos rb),
                       available := available rb - 1\<rparr>) n
            of (rb', out) \<Rightarrow> (rb', data rb (unat (readPos rb)) # out))
      else (rb, []))"

subsection \<open>Sequences of writes and reads\<close>

text \<open>
  A client of the buffer issues writes and reads in some order. \<open>run\<close> carries the
  buffer through such a sequence; the three totals add up what the calls returned:
  the samples \<open>ring_buffer_write\<close> reported as written, the samples it was offered
  and did not take, and the samples \<open>ring_buffer_read\<close> handed out.
\<close>

datatype rb_op = Write "sample list" | Read nat

fun rb_step :: "ring_buffer \<Rightarrow> rb_op \<Rightarrow> ring_buffer" where
  "rb_step rb (Write xs) = fst (ring_buffer_write rb xs)"
| "rb_step rb (Read n) = fst (ring_buffer_read rb n)"

fun written_by :: "ring_buffer \<Rightarrow> rb_op \<Rightarrow> nat" where
  "written_by rb (Write xs) = snd (ring_buffer_write rb xs)"
| "written_by rb (Read n) = 0"

fun dropped_by :: "ring_buffer \<Rightarrow> rb_op \<Rightarrow> nat" where
  "dropped_by rb (Write xs) = length xs - snd (ring_buffer_write rb xs)"
| "dropped_by rb (Read n) = 0"

fun read_by :: "ring_buffer \<Rightarrow> rb_op \<Rightarrow> nat" where
  "read_by rb (Write xs) = 0"
| "read_by rb (Read n) = length (snd (ring_buffer_read rb n))"

fun offered_by :: "rb_op \<Rightarrow> nat" where
  "offered_by (Write xs) = length xs"
| "offered_by (Read n) = 0"

fun run :: "ring_buffer \<Rightarrow> rb_op list \<Rightarrow> ring_buffer" where
  "run rb [] = rb"
| "run rb (c # cs) = run (rb_step rb c) cs"

fun total_written :: "ring_buffer \<Rightarrow> rb_op list \<Rightarrow> nat" where
  "total_written rb [] = 0"
| "total_written rb (c # cs) = written_by rb c + total_written (rb_step rb c) cs"

fun total_dropped :: "ring_buffer \<Rightarrow> rb_op list \<Rightarrow> nat" where
  "total_dropped rb [] = 0"
| "total_dropped rb (c # cs) = dropped_by rb c + total_dropped (rb_step rb c) cs"

fun total_read :: "ring_buffer \<Rightarrow> rb_op list \<Rightarrow> nat" where
  "total_read rb [] = 0"
| "total_read rb (c # cs) = read_by rb c + total_read (rb_step rb c) cs"

section \<open>The device handle\<close>

subsection \<open>The native backend\<close>

text \<open>
  Modelled from the spec: the native audio backend. The header calls it through
  \<^verbatim>\<open>rtaudio_c.h\<close>, which is a library outside the sources. The spec describes it as
  the capability that opens, starts, stops and closes one stream and reports a
  diagnostic text for a failed call; closing is the point after which the stream counts
  as closed. The stream is closed, open but stopped, or running. Whether a call
  succeeds is the backend's decision, so each fallible call takes its \<open>answer\<close> as an
  argument: every theorem below holds whatever the backend answers.
\<close>

datatype stream_state = STREAM_CLOSED | STREAM_STOPPED | STREAM_RUNNING

record rtaudio =
  state :: stream_state
  error_text :: string

datatype answer = Done | Failed string

definition rtaudio_is_stream_open :: "rtaudio \<Rightarrow> bool" where
  "rtaudio_is_stream_open h \<longleftrightarrow> state h \<noteq> STREAM_CLOSED"

definition rtaudio_is_stream_running :: "rtaudio \<Rightarrow> bool" where
  "rtaudio_is_stream_running h \<longleftrightarrow> state h = STREAM_RUNNING"

definition rtaudio_error :: "rtaudio \<Rightarrow> string" where
  "rtaudio_error h = error_text h"

definition rtaudio_open_stream :: "rtaudio \<Rightarrow> answer \<Rightarrow> rtaudio" where
  "rtaudio_open_stream h a =
     (case a of Done \<Rightarrow> h\<lparr>state := STREAM_STOPPED\<rparr> | Failed msg \<Rightarrow> h\<lparr>error_text := msg\<rparr>)"

definition rtaudio_start_stream :: "rtaudio \<Rightarrow> answer \<Rightarrow> rtaudio" where
  "rtaudio_start_stream h a =
     (case a of Done \<Rightarrow> h\<lparr>state := STREAM_RUNNING\<rparr> | Failed msg \<Rightarrow> h\<lparr>error_text := msg\<rparr>)"

definition rtaudio_stop_stream :: "rtaudio \<Rightarrow> answer \<Rightarrow> rtaudio" where
  "rtaudio_stop_stream h a =
     (case a of Done \<Rightarrow> h\<lparr>state := STREAM_STOPPED\<rparr> | Failed msg \<Rightarrow> h\<lparr>error_text := msg\<rparr>)"

definition rtaudio_close_stream :: "rtaudio \<Rightarrow> rtaudio" where
  "rtaudio_close_stream h = h\<lparr>state := STREAM_CLOSED\<rparr>"

subsection \<open>The device and its operations\<close>

text \<open>
  \<^verbatim>\<open>
  struct audio_device {
      rtaudio_t handle;
      ring_buffer_t ringBuffer;
      unsigned int channels;
      char errorMsg[256];
  };
  \<close>
  \<^verbatim>\<open>handle\<close> is a pointer and may be null; \<^verbatim>\<open>errorMsg\<close> holds a C string, modelled by
  its characters before the terminating zero. A device pointer that may be null is an
  \<open>audio_device option\<close>.
\<close>

record audio_device =
  handle :: "rtaudio option"
  ringBuffer :: ring_buffer
  channels :: uint
  errorMsg :: string

definition AUDIO_OK :: int where
  "AUDIO_OK = 0"

definition AUDIO_ERROR :: int where
  "AUDIO_ERROR = - 1"

definition AUDIO_NO_DEVICES :: int where
  "AUDIO_NO_DEVICES = - 2"

definition AUDIO_INVALID_PARAM :: int where
  "AUDIO_INVALID_PARAM = - 3"

text \<open>
  \<^verbatim>\<open>snprintf(dev->errorMsg, sizeof(dev->errorMsg), ...)\<close> with the format \<^verbatim>\<open>%s\<close>
  copies at most 255 characters of its argument and terminates them.
\<close>

definition snprintf_256 :: "string \<Rightarrow> string" where
  "snprintf_256 s = take 255 s"

text \<open>
  \<^verbatim>\<open>
  audio_device_t* audio_create() {
      ... dev = malloc(sizeof(audio_device_t));
      if (!dev) return NULL;
      dev->handle = rtaudio_create(RTAUDIO_API_UNSPECIFIED);
      if (!dev->handle) { free(dev); return NULL; }
      ring_buffer_init(&dev->ringBuffer);
      dev->channels = 0;
      (errorMsg is set to the empty string)
      return dev;
  }
  \<close>
  The two arguments are what \<^verbatim>\<open>malloc\<close> and \<^verbatim>\<open>rtaudio_create\<close> hand back.
\<close>

definition audio_create :: "audio_device option \<Rightarrow> rtaudio option \<Rightarrow> audio_device option" where
  "audio_create mem created =
     (case mem of
        None \<Rightarrow> None
      | Some d \<Rightarrow>
          (case created of
             None \<Rightarrow> None
           | Some h \<Rightarrow>
               Some (d\<lparr>handle := Some h,
                        ringBuffer := ring_buffer_init (ringBuffer d),
                        channels := 0,
                        errorMsg := []\<rparr>)))"

text \<open>
  \<^verbatim>\<open>
  static int audio_callback(void* outputBuffer, void* inputBuffer,
                           unsigned int nFrames, double streamTime,
                           rtaudio_stream_status_t status, void* userData) {
      audio_device_t* dev = userData;
      if (inputBuffer) {
          int16_t* samples = inputBuffer;
          unsigned int totalSamples = nFrames * dev->channels;
          ring_buffer_write(&dev->ringBuffer, samples, totalSamples);
      }
      return 0;  // Continue stream
  }
  \<close>
  The multiplication is that of \<^verbatim>\<open>unsigned int\<close>.
\<close>

definition audio_callback :: "audio_device \<Rightarrow> sample list option \<Rightarrow> uint \<Rightarrow> audio_device \<times> int" where
  "audio_callback dev inputBuffer nFrames =
     (case inputBuffer of
        None \<Rightarrow> (dev, 0)
      | Some samples \<Rightarrow>
          let totalSamples = nFrames * channels dev
          in (dev\<lparr>ringBuffer :=
                     fst (ring_buffer_write (ringBuffer dev) (take (unat totalSamples) samples))\<rparr>,
              0))"

text \<open>
  \<^verbatim>\<open>
  int audio_start_recording(audio_device_t* dev, unsigned int deviceId,
                           unsigned int channels, unsigned int sampleRate,
                           unsigned int bufferFrames) {
      if (!dev || !dev->handle) return AUDIO_ERROR;
      if (channels == 0 || sampleRate == 0) return AUDIO_INVALID_PARAM;
      ...
      dev->channels = channels;
      unsigned int frames = bufferFrames;
      rtaudio_error_t err = rtaudio_open_stream(dev->handle, ..., &frames, ...);
      if (err != RTAUDIO_ERROR_NONE) {
          snprintf(dev->errorMsg, sizeof(dev->errorMsg), ..., rtaudio_error(dev->handle));
          return AUDIO_ERROR;
      }
      err = rtaudio_start_stream(dev->handle);
      if (err != RTAUDIO_ERROR_NONE) {
          snprintf(dev->errorMsg, sizeof(dev->errorMsg), ..., rtaudio_error(dev->handle));
          rtaudio_close_stream(dev->handle);
          return AUDIO_ERROR;
      }
      return (int)frames;  // Return actual buffer size
  }
  \<close>
  \<open>opened\<close> and \<open>started\<close> are the backend's answers to the two calls, \<open>granted\<close> the
  buffer size it leaves in \<^verbatim>\<open>frames\<close> when the stream opens. The result is the device
  after the call and the returned \<^verbatim>\<open>int\<close>; the conversion of \<^verbatim>\<open>frames\<close> to \<^verbatim>\<open>int\<close>
  reads the 32 bits as a signed number.
\<close>

definition audio_start_recording ::
  "audio_device option \<Rightarrow> uint \<Rightarrow> uint \<Rightarrow> uint \<Rightarrow> uint \<Rightarrow> answer \<Rightarrow> uint \<Rightarrow> answer
     \<Rightarrow> audio_device option \<times> int" where
  "audio_start_recording dev deviceId chans sampleRate bufferFrames opened granted started =
     (case dev of
        None \<Rightarrow> (None, AUDIO_ERROR)
      | Some d \<Rightarrow>
          (case handle d of
             None \<Rightarrow> (Some d, AUDIO_ERROR)
           | Some h \<Rightarrow>
               if chans = 0 \<or> sampleRate = 0 then (Some d, AUDIO_INVALID_PARAM)
               else
                 let d1 = d\<lparr>channels := chans\<rparr>;
                     h1 = rtaudio_open_stream h opened
                 in if opened \<noteq> Done
                    then (Some (d1\<lparr>handle := Some h1,
                                   errorMsg := snprintf_256 (rtaudio_error h1)\<rparr>),
                          AUDIO_ERROR)
                    else
                      let frames = granted;
                          h2 = rtaudio_start_stream h1 started
                      in if started \<noteq> Done
                         then (Some (d1\<lparr>handle := Some (rtaudio_close_stream h2),
                                        errorMsg := snprintf_256 (rtaudio_error h2)\<rparr>),
                               AUDIO_ERROR)
                         else (Some (d1\<lparr>handle := Some h2\<rparr>), sint frames)))"

text \<open>
  \<^verbatim>\<open>
  void audio_stop(audio_device_t* dev) {
      if (!dev || !dev->handle) return;
      if (rtaudio_is_stream_running(dev->handle)) {
          rtaudio_stop_stream(dev->handle);
      }
      if (rtaudio_is_stream_open(dev->handle)) {
          rtaudio_close_stream(dev->handle);
      }
  }
  \<close>
  \<open>stopped\<close> is the backend's answer to \<^verbatim>\<open>rtaudio_stop_stream\<close>, which the function
  does not look at.
\<close>

definition audio_stop :: "audio_device option \<Rightarrow> answer \<Rightarrow> audio_device option" where
  "audio_stop dev stopped =
     (case dev of
        None \<Rightarrow> None
      | Some d \<Rightarrow>
          (case handle d of
             None \<Rightarrow> Some d
           | Some h \<Rightarrow>
               let h1 = (if rtaudio_is_stream_running h then rtaudio_stop_stream h stopped else h);
                   h2 = (if rtaudio_is_stream_open h1 then rtaudio_close_stream h1 else h1)
               in Some (d\<lparr>handle := Some h2\<rparr>)))"

text \<open>
  \<^verbatim>\<open>
  int audio_read_samples(audio_device_t* dev, int16_t* buffer, unsigned int maxFrames) {
      if (!dev || !buffer || maxFrames == 0) return AUDIO_INVALID_PARAM;
      unsigned int totalSamples = maxFrames * dev->channels;
      unsigned int samplesRead = ring_buffer_read(&dev->ringBuffer, buffer, totalSamples);
      return samplesRead / dev->channels;  // Return frames, not samples
  }
  \<close>
  The caller's buffer is \<open>None\<close> for a null pointer; after the call its first
  \<^verbatim>\<open>samplesRead\<close> cells hold the samples read. Dividing by a \<^verbatim>\<open>channels\<close> field of zero
  has no result in C: the model reports it as a fault.
\<close>

datatype fault = DivisionByZero

definition audio_read_samples ::
  "audio_device option \<Rightarrow> sample list option \<Rightarrow> uint
     \<Rightarrow> fault + (audio_device option \<times> sample list option \<times> int)" where
  "audio_read_samples dev buffer maxFrames =
     (case dev of
        None \<Rightarrow> Inr (None, buffer, AUDIO_INVALID_PARAM)
      | Some d \<Rightarrow>
          if buffer = None \<or> maxFrames = 0 then Inr (Some d, buffer, AUDIO_INVALID_PARAM)
          else
            let totalSamples = maxFrames * channels d;
                (rb', out) = ring_buffer_read (ringBuffer d) (unat totalSamples);
                samplesRead = (word_of_nat (length out) :: uint)
            in if channels d = 0 then Inl DivisionByZero
               else Inr (Some (d\<lparr>ringBuffer := rb'\<rparr>),
                         map_option (\<lambda>buf. out @ drop (length out) buf) buffer,
                         sint (samplesRead div channels d)))"

text \<open>
  \<^verbatim>\<open>audio_error_message\<close> answers a null device with the text \<^verbatim>\<open>Invalid device\<close>;
  otherwise it returns \<^verbatim>\<open>dev->errorMsg\<close> if its first character is not zero, and the
  text \<^verbatim>\<open>No error\<close> if it is:
  \<^verbatim>\<open>return dev->errorMsg[0] ? dev->errorMsg : ...;\<close>
\<close>

definition audio_error_message :: "audio_device option \<Rightarrow> string" where
  "audio_error_message dev =
     (case dev of
        None \<Rightarrow> ''Invalid device''
      | Some d \<Rightarrow> if errorMsg d \<noteq> [] then errorMsg d else ''No error'')"

subsection \<open>Devices for the concrete runs\<close>

text \<open>
  \<open>new_device\<close> is a device as \<open>audio_create\<close> returns it. \<open>stereo_device\<close> is that
  device recording two channels, with five samples in its ring buffer that an earlier
  recording of one channel has left there.
\<close>

definition idle_backend :: rtaudio where
  "idle_backend = \<lparr>state = STREAM_CLOSED, error_text = []\<rparr>"

definition new_device :: audio_device where
  "new_device = \<lparr>handle = Some idle_backend, ringBuffer = fresh, channels = 0, errorMsg = []\<rparr>"

definition stereo_device :: audio_device where
  "stereo_device =
     new_device\<lparr>handle := Some (idle_backend\<lparr>state := STREAM_RUNNING\<rparr>), channels := 2,
       ringBuffer := fst (ring_buffer_write fresh [1, 2, 3, 4, 5])\<rparr>"

section \<open>Properties of the ring buffer\<close>

subsection \<open>Cursor arithmetic\<close>

lemma advance_less: "advance pos < RING_BUFFER_SIZE"
proof -
  have "unat ((pos + 1) mod 48000) < 48000"
    by (simp add: unat_mod)
  then have "unat ((pos + 1) mod 48000) * 10 < 480000"
    by simp
  then show ?thesis
    by (simp add: advance_def RING_BUFFER_SIZE_def word_less_nat_alt unat_word_ariths)
qed

lemma unat_available_Suc:
  "available rb < RING_BUFFER_SIZE \<Longrightarrow> unat (available rb + 1) = Suc (unat (available rb))"
  by (simp add: RING_BUFFER_SIZE_def word_less_nat_alt unat_word_ariths)

lemma unat_available_pred:
  "0 < available rb \<Longrightarrow> unat (available rb - 1) = unat (available rb) - 1"
  using unat_minus_one [of "available rb"] by (simp add: word_gt_0)

subsection \<open>What one write does to the counters\<close>

lemma write_loop_readPos:
  "readPos (fst (ring_buffer_write_loop rb xs w)) = readPos rb"
  by (induction xs arbitrary: rb w) auto

lemma write_loop_count:
  "snd (ring_buffer_write_loop rb xs w) =
     w + min (length xs) (unat RING_BUFFER_SIZE - unat (available rb))"
proof (induction xs arbitrary: rb w)
  case Nil
  show ?case by simp
next
  case (Cons x xs)
  show ?case
  proof (cases "available rb < RING_BUFFER_SIZE")
    case True
    then show ?thesis
      using Cons [of _ "w + 1"] by (simp add: unat_available_Suc word_less_nat_alt)
  next
    case False
    then show ?thesis by (simp add: word_less_nat_alt)
  qed
qed

lemma write_loop_available:
  "unat (available (fst (ring_buffer_write_loop rb xs w))) =
     unat (available rb) + min (length xs) (unat RING_BUFFER_SIZE - unat (available rb))"
proof (induction xs arbitrary: rb w)
  case Nil
  show ?case by simp
next
  case (Cons x xs)
  show ?case
  proof (cases "available rb < RING_BUFFER_SIZE")
    case True
    then show ?thesis
      using Cons [of _ "w + 1"] by (simp add: unat_available_Suc word_less_nat_alt)
  next
    case False
    then show ?thesis by (simp add: word_less_nat_alt)
  qed
qed

lemma write_loop_inv:
  "rb_inv rb \<Longrightarrow> rb_inv (fst (ring_buffer_write_loop rb xs w))"
proof (induction xs arbitrary: rb w)
  case Nil
  then show ?case by simp
next
  case (Cons x xs)
  show ?case
  proof (cases "available rb < RING_BUFFER_SIZE")
    case True
    have "available rb + 1 \<le> RING_BUFFER_SIZE"
      using True unat_available_Suc [OF True]
      by (simp add: word_less_nat_alt word_le_nat_alt)
    then have "rb_inv (rb\<lparr>data := (data rb)(unat (writePos rb) := x),
                 writePos := advance (writePos rb),
                 available := available rb + 1\<rparr>)"
      using Cons.prems by (simp add: rb_inv_def advance_less)
    then show ?thesis
      using True Cons.IH by simp
  next
    case False
    then show ?thesis
      using Cons.prems by simp
  qed
qed

subsection \<open>What one read does to the counters\<close>

lemma read_writePos_data:
  "writePos (fst (ring_buffer_read rb n)) = writePos rb \<and>
   data (fst (ring_buffer_read rb n)) = data rb"
  by (induction n arbitrary: rb) (simp_all add: case_prod_beta)

lemma read_count:
  "length (snd (ring_buffer_read rb n)) = min n (unat (available rb))"
proof (induction n arbitrary: rb)
  case 0
  show ?case by simp
next
  case (Suc n)
  show ?case
  proof (cases "0 < available rb")
    case True
    then show ?thesis
      using Suc [of "rb\<lparr>readPos := advance (readPos rb), available := available rb - 1\<rparr>"]
      by (simp add: unat_available_pred word_less_nat_alt case_prod_beta)
  next
    case False
    then show ?thesis by (simp add: word_less_nat_alt)
  qed
qed

lemma read_available:
  "unat (available (fst (ring_buffer_read rb n))) =
     unat (available rb) - min n (unat (available rb))"
proof (induction n arbitrary: rb)
  case 0
  show ?case by simp
next
  case (Suc n)
  show ?case
  proof (cases "0 < available rb")
    case True
    then show ?thesis
      using Suc [of "rb\<lparr>readPos := advance (readPos rb), available := available rb - 1\<rparr>"]
      by (simp add: unat_available_pred word_less_nat_alt case_prod_beta)
  next
    case False
    then show ?thesis by (simp add: word_less_nat_alt)
  qed
qed

lemma read_inv:
  "rb_inv rb \<Longrightarrow> rb_inv (fst (ring_buffer_read rb n))"
proof (induction n arbitrary: rb)
  case 0
  then show ?case by simp
next
  case (Suc n)
  show ?case
  proof (cases "0 < available rb")
    case True
    have "unat (available rb - 1) \<le> unat (available rb)"
      by (simp add: unat_available_pred [OF True])
    then have "available rb - 1 \<le> RING_BUFFER_SIZE"
      using Suc.prems by (simp add: rb_inv_def word_le_nat_alt)
    then have "rb_inv (rb\<lparr>readPos := advance (readPos rb), available := available rb - 1\<rparr>)"
      using Suc.prems by (simp add: rb_inv_def advance_less)
    then show ?thesis
      using True Suc.IH [of "rb\<lparr>readPos := advance (readPos rb), available := available rb - 1\<rparr>"]
      by (simp add: case_prod_beta)
  next
    case False
    then show ?thesis
      using Suc.prems by simp
  qed
qed

lemma rb_inv_fresh: "rb_inv fresh"
  by (simp add: rb_inv_def fresh_def ring_buffer_init_def RING_BUFFER_SIZE_def)

section \<open>Each side moves its own cursor\<close>

text \<open>
  Claim C10. On every ring buffer whose cursors index the array and whose fill count is
  within the size (the states the data model admits, and the only ones in which the C
  statement \<^verbatim>\<open>rb->data[rb->writePos] = ...\<close> stores inside the array), and for every
  input, \<open>ring_buffer_write\<close> leaves \<open>readPos\<close> as it was, and \<open>ring_buffer_read\<close>
  leaves \<open>writePos\<close> and every stored sample as they were: the writer moves
  \<open>writePos\<close>, the reader \<open>readPos\<close>, and both touch \<open>available\<close>.
\<close>

theorem ring_buffer_frame:
  assumes "rb_inv rb"
  shows "readPos (fst (ring_buffer_write rb xs)) = readPos rb \<and>
         writePos (fst (ring_buffer_read rb n)) = writePos rb \<and>
         data (fst (ring_buffer_read rb n)) = data rb"
  by (simp add: ring_buffer_write_def write_loop_readPos read_writePos_data)

theorem ring_buffer_frame_witness:
  "rb_inv fresh \<and>
   readPos (fst (ring_buffer_write fresh [7, 8, 9])) = readPos fresh \<and>
   writePos (fst (ring_buffer_read (fst (ring_buffer_write fresh [7, 8, 9])) 2)) =
     writePos (fst (ring_buffer_write fresh [7, 8, 9])) \<and>
   data (fst (ring_buffer_read (fst (ring_buffer_write fresh [7, 8, 9])) 2)) =
     data (fst (ring_buffer_write fresh [7, 8, 9]))"
proof -
  have inv: "rb_inv (fst (ring_buffer_write fresh [7, 8, 9]))"
    unfolding ring_buffer_write_def by (rule write_loop_inv [OF rb_inv_fresh])
  show ?thesis
    using rb_inv_fresh ring_buffer_frame [OF rb_inv_fresh, of "[7, 8, 9]" 0]
      ring_buffer_frame [OF inv, of "[]" 2]
    by simp
qed

section \<open>Counts over a sequence of operations\<close>

lemma rb_inv_init: "rb_inv (ring_buffer_init rb)"
  by (simp add: rb_inv_def ring_buffer_init_def RING_BUFFER_SIZE_def)

lemma step_inv: "rb_inv rb \<Longrightarrow> rb_inv (rb_step rb c)"
  by (cases c) (simp_all add: ring_buffer_write_def write_loop_inv read_inv)

lemma run_inv: "rb_inv rb \<Longrightarrow> rb_inv (run rb cs)"
  by (induction cs arbitrary: rb) (simp_all add: step_inv)

lemma step_balance:
  "read_by rb c + unat (available (rb_step rb c)) = unat (available rb) + written_by rb c"
  by (cases c)
    (simp_all add: ring_buffer_write_def write_loop_count write_loop_available
      read_count read_available)

lemma run_balance:
  "total_read rb cs + unat (available (run rb cs)) = unat (available rb) + total_written rb cs"
proof (induction cs arbitrary: rb)
  case Nil
  show ?case by simp
next
  case (Cons c cs)
  have "total_read rb (c # cs) + unat (available (run rb (c # cs))) =
        read_by rb c + (total_read (rb_step rb c) cs + unat (available (run (rb_step rb c) cs)))"
    by simp
  also have "\<dots> = read_by rb c + (unat (available (rb_step rb c)) + total_written (rb_step rb c) cs)"
    by (simp only: Cons.IH)
  also have "\<dots> = unat (available rb) + written_by rb c + total_written (rb_step rb c) cs"
    using step_balance [of rb c] by simp
  finally show ?case by simp
qed

lemma step_offered: "written_by rb c + dropped_by rb c = offered_by c"
  by (cases c) (simp_all add: ring_buffer_write_def write_loop_count)

lemma run_offered:
  "total_written rb cs + total_dropped rb cs = sum_list (map offered_by cs)"
proof (induction cs arbitrary: rb)
  case Nil
  show ?case by simp
next
  case (Cons c cs)
  show ?case
    using Cons.IH [of "rb_step rb c"] step_offered [of rb c] by simp
qed

text \<open>
  Claim C2, as stated, asks that the samples read so far equal the samples written
  minus the samples dropped. After a single write of three samples into an empty buffer
  nothing has been read and nothing dropped, but three samples were written.
\<close>

theorem read_total_counterexample:
  "total_read fresh [Write [1, 2, 3]] \<noteq>
     total_written fresh [Write [1, 2, 3]] - total_dropped fresh [Write [1, 2, 3]]"
  by (simp add: fresh_def ring_buffer_init_def ring_buffer_write_def RING_BUFFER_SIZE_def)

text \<open>
  Claim C2, amended. Start from a buffer that \<open>ring_buffer_init\<close> has set up and run any
  sequence of writes and reads. After each operation (after the first \<open>k\<close> of them, for
  every \<open>k\<close>) the fill count is at most the size and both cursors index the array. The
  samples read so far, together with the samples still waiting in the buffer, are the
  samples written so far; and the samples written are the samples offered to the writes
  less the samples dropped for lack of room.
\<close>

theorem ring_buffer_accounting:
  "rb_inv (run (ring_buffer_init rb) (take k cs)) \<and>
   total_read (ring_buffer_init rb) cs + unat (available (run (ring_buffer_init rb) cs))
     = total_written (ring_buffer_init rb) cs \<and>
   total_written (ring_buffer_init rb) cs + total_dropped (ring_buffer_init rb) cs
     = sum_list (map offered_by cs)"
proof -
  have "unat (available (ring_buffer_init rb)) = 0"
    by (simp add: ring_buffer_init_def)
  then show ?thesis
    using run_balance [of "ring_buffer_init rb" cs] run_offered [of "ring_buffer_init rb" cs]
    by (simp add: run_inv rb_inv_init)
qed

section \<open>Concrete runs of the buffer\<close>

text \<open>
  From the cursor 0 the statement \<^verbatim>\<open>pos = (pos + 1) % 48000 * 10\<close> visits
  0, 10, 110, 1110, 11110, 111110, 151110, 71110, 231110, 391110 and then 71110 again:
  from the eighth sample on, only three cells of the array are ever used.
\<close>

lemma advance_orbit:
  "advance 0 = 10 \<and> advance 10 = 110 \<and> advance 110 = 1110 \<and> advance 1110 = 11110 \<and>
   advance 11110 = 111110 \<and> advance 111110 = 151110 \<and> advance 151110 = 71110 \<and>
   advance 71110 = 231110 \<and> advance 231110 = 391110 \<and> advance 391110 = 71110"
  by (simp add: advance_def)

lemma read_numeral:
  "ring_buffer_read rb (numeral k) =
     (if 0 < available rb
      then (case ring_buffer_read
                   (rb\<lparr>readPos := advance (readPos rb),
                       available := available rb - 1\<rparr>) (pred_numeral k)
            of (rb', out) \<Rightarrow> (rb', data rb (unat (readPos rb)) # out))
      else (rb, []))"
  by (simp add: numeral_eq_Suc)

lemmas run_simps =
  fresh_def ring_buffer_init_def ring_buffer_write_def RING_BUFFER_SIZE_def advance_def
  silence_def read_numeral

text \<open>
  Claim C1 at a concrete input. Eleven samples are written into an empty buffer in one
  call. The call reports all eleven as written and nothing has been read, yet the cell
  71110, which held the eighth sample after the first eight were stored, holds the
  eleventh at the end: the write has overwritten a stored, unread sample.
\<close>

theorem ring_buffer_write_overwrites_unread:
  "snd (ring_buffer_write fresh [1, 2, 3, 4, 5, 6, 7, 8, 9, 10, 11]) = 11 \<and>
   available (fst (ring_buffer_write fresh [1, 2, 3, 4, 5, 6, 7, 8, 9, 10, 11])) = 11 \<and>
   data (fst (ring_buffer_write fresh [1, 2, 3, 4, 5, 6, 7, 8])) 71110 = 8 \<and>
   data (fst (ring_buffer_write fresh [1, 2, 3, 4, 5, 6, 7, 8, 9, 10, 11])) 71110 = 11"
  by (simp add: run_simps)

text \<open>
  Claim C3 at a concrete input. Eleven samples written into an empty buffer and read
  back at once do not come back as they went in: the eighth sample read is the eleventh
  written.
\<close>

theorem round_trip_eleven_samples:
  "snd (ring_buffer_read (fst (ring_buffer_write fresh [1, 2, 3, 4, 5, 6, 7, 8, 9, 10, 11])) 11)
     = [1, 2, 3, 4, 5, 6, 7, 11, 9, 10, 11] \<and>
   snd (ring_buffer_read (fst (ring_buffer_write fresh [1, 2, 3, 4, 5, 6, 7, 8, 9, 10, 11])) 11)
     \<noteq> [1, 2, 3, 4, 5, 6, 7, 8, 9, 10, 11]"
  by (simp add: run_simps)

text \<open>
  With the header's own text the parametrised loops are the header's loops.
\<close>

lemma advance_at_header: "advance_at (48000, [10]) pos = advance pos"
  by (simp add: advance_at_def advance_def)

lemma text_value_header: "text_value (48000, [10]) = RING_BUFFER_SIZE"
  by (simp add: text_value_def RING_BUFFER_SIZE_def)

lemma write_loop_at_header:
  "ring_buffer_write_loop_at (48000, [10]) rb xs w = ring_buffer_write_loop rb xs w"
  by (induction xs arbitrary: rb w) (simp_all add: advance_at_header text_value_header)

lemma write_at_header: "ring_buffer_write_at (48000, [10]) rb xs = ring_buffer_write rb xs"
  by (simp add: ring_buffer_write_at_def ring_buffer_write_def write_loop_at_header)

lemma read_at_header: "ring_buffer_read_at (48000, [10]) rb n = ring_buffer_read rb n"
  by (induction n arbitrary: rb) (simp_all add: advance_at_header)




text \<open>
  The header as it is built has the text \<^verbatim>\<open>48000 * 10\<close> and no buffer of capacity 10.
  Run on it, the same five calls differ from the scenario in two places: the buffer is
  not full at ten samples and takes the sample 99, and the last read shows the cursor
  defect of the concrete runs above.
\<close>

lemma scenario_as_built:
  "(case ring_buffer_write fresh [1, 2, 3] of (rb1, w1) \<Rightarrow>
    case ring_buffer_read rb1 2 of (rb2, out2) \<Rightarrow>
    case ring_buffer_write rb2 [4, 5, 6, 7, 8, 9, 10, 11, 12] of (rb3, w3) \<Rightarrow>
    case ring_buffer_write rb3 [99] of (rb4, w4) \<Rightarrow>
    case ring_buffer_read rb4 10 of (rb5, out5) \<Rightarrow>
      w1 = 3 \<and> available rb1 = 3 \<and>
      out2 = [1, 2] \<and> available rb2 = 1 \<and>
      w3 = 9 \<and> available rb3 = 10 \<and>
      w4 = 1 \<and> available rb4 = 11 \<and>
      out5 = [3, 4, 5, 6, 7, 11, 12, 99, 11, 12])"
  by (simp add: run_simps)

section \<open>Properties of the device operations\<close>

lemmas backend_simps =
  rtaudio_open_stream_def rtaudio_start_stream_def rtaudio_stop_stream_def
  rtaudio_close_stream_def rtaudio_error_def rtaudio_is_stream_open_def
  rtaudio_is_stream_running_def snprintf_256_def

lemmas fixture_simps = new_device_def stereo_device_def idle_backend_def

text \<open>The concrete devices are states the operations produce.\<close>

lemma new_device_created:
  "audio_create
     (Some \<lparr>handle = None,
            ringBuffer = \<lparr>data = silence, writePos = 7, readPos = 3, available = 9\<rparr>,
            channels = 5, errorMsg = ''junk''\<rparr>)
     (Some idle_backend) = Some new_device"
  by (simp add: audio_create_def new_device_def fresh_def ring_buffer_init_def)

lemma stereo_device_reached:
  "(case audio_start_recording (Some new_device) 0 1 48000 512 Done 512 Done of
      (Some d1, r1) \<Rightarrow>
        audio_start_recording
          (audio_stop (Some (fst (audio_callback d1 (Some [1, 2, 3, 4, 5]) 5))) Done)
          0 2 48000 512 Done 512 Done
        = (Some stereo_device, 512)
    | (None, r1) \<Rightarrow> False)"
  by (simp add: audio_start_recording_def audio_callback_def audio_stop_def fixture_simps
      backend_simps)

subsection \<open>Frames and samples\<close>

lemma sint_small:
  fixes w :: uint
  assumes "unat w < 2 ^ 31"
  shows "sint w = int (unat w)"
proof -
  have "uint w = int (unat w)"
    by simp
  moreover have "int (unat w) < 2 ^ 31"
    using assms by (metis of_nat_less_iff of_nat_numeral of_nat_power)
  ultimately have "signed_take_bit 31 (uint w) = uint w"
    by (simp add: signed_take_bit_int_eq_self del: of_nat_unat)
  then show ?thesis
    by (simp add: sint_uint)
qed

lemma frames_of_samples:
  fixes f c :: uint
  assumes c: "c \<noteq> 0" and n: "n \<le> unat (f * c)" and small: "n \<le> 480000"
  shows "sint ((word_of_nat n :: uint) div c) = int (n div unat c) \<and>
         n div unat c \<le> unat f \<and> n \<le> unat f * unat c"
proof -
  have un: "unat (word_of_nat n :: uint) = n"
    using n by (rule le_unat_uoi)
  have q: "unat ((word_of_nat n :: uint) div c) = n div unat c"
    by (simp add: unat_div un)
  have "n div unat c < 2 ^ 31"
    by (rule le_less_trans [OF div_le_dividend]) (use small in simp)
  then have "unat ((word_of_nat n :: uint) div c) < 2 ^ 31"
    by (simp only: q)
  then have s: "sint ((word_of_nat n :: uint) div c) = int (n div unat c)"
    using q by (simp add: sint_small)
  have "unat (f * c) \<le> unat f * unat c"
    by (simp add: unat_word_ariths)
  then have le: "n \<le> unat f * unat c"
    using n by simp
  have "0 < unat c"
    using c by (simp add: unat_gt_0)
  then have "n div unat c \<le> unat f"
    using div_le_mono [OF le, of "unat c"] by simp
  then show ?thesis
    using s le by simp
qed

text \<open>
  Claim C4. Let the device have a \<open>channels\<close> field \<open>c\<close> other than zero and a ring
  buffer within its bounds, let the output buffer be present and \<open>maxFrames = f\<close> not
  zero. Then \<open>audio_read_samples\<close> returns a frame count between 0 and \<open>f\<close>; the
  samples it drains from the ring buffer (the decrease of \<open>available\<close>) are at most
  \<open>f * c\<close>; the count returned is exactly the samples drained divided by \<open>c\<close>, so the
  count times \<open>c\<close> does not exceed the samples drained. With a null buffer or
  \<open>maxFrames = 0\<close> it returns \<open>AUDIO_INVALID_PARAM\<close> and leaves the device, its ring
  buffer included, as it was.
\<close>

theorem audio_read_samples_frames:
  "(channels d \<noteq> 0 \<and> rb_inv (ringBuffer d) \<and> maxFrames \<noteq> 0 \<longrightarrow>
      (\<exists>d' out ret.
         audio_read_samples (Some d) (Some buf) maxFrames = Inr (Some d', Some out, ret) \<and>
         0 \<le> ret \<and> ret \<le> uint maxFrames \<and>
         unat (available (ringBuffer d)) - unat (available (ringBuffer d'))
           \<le> unat maxFrames * unat (channels d) \<and>
         ret = int ((unat (available (ringBuffer d)) - unat (available (ringBuffer d')))
                      div unat (channels d)) \<and>
         ret * uint (channels d)
           \<le> int (unat (available (ringBuffer d)) - unat (available (ringBuffer d'))))) \<and>
   (buffer = None \<or> maxFrames = 0 \<longrightarrow>
      audio_read_samples (Some d) buffer maxFrames = Inr (Some d, buffer, AUDIO_INVALID_PARAM))"
proof (intro conjI impI)
  assume "buffer = None \<or> maxFrames = 0"
  then show "audio_read_samples (Some d) buffer maxFrames = Inr (Some d, buffer, AUDIO_INVALID_PARAM)"
    by (auto simp: audio_read_samples_def)
next
  assume a: "channels d \<noteq> 0 \<and> rb_inv (ringBuffer d) \<and> maxFrames \<noteq> 0"
  define total where "total = unat (maxFrames * channels d)"
  define res where "res = ring_buffer_read (ringBuffer d) total"
  define n where "n = length (snd res)"
  have n_min: "n = min total (unat (available (ringBuffer d)))"
    by (simp add: n_def res_def read_count)
  have drained: "unat (available (ringBuffer d)) - unat (available (fst res)) = n"
    by (simp add: res_def read_available n_min)
  have "unat (available (ringBuffer d)) \<le> 480000"
    using a by (simp add: rb_inv_def RING_BUFFER_SIZE_def word_le_nat_alt)
  then have small: "n \<le> 480000"
    using n_min by simp
  have "n \<le> unat (maxFrames * channels d)"
    using n_min by (simp add: total_def)
  then have ar: "sint ((word_of_nat n :: uint) div channels d) = int (n div unat (channels d)) \<and>
         n div unat (channels d) \<le> unat maxFrames \<and> n \<le> unat maxFrames * unat (channels d)"
    using a small by (simp add: frames_of_samples)
  have call: "audio_read_samples (Some d) (Some buf) maxFrames =
      Inr (Some (d\<lparr>ringBuffer := fst res\<rparr>), Some (snd res @ drop n buf),
           sint ((word_of_nat n :: uint) div channels d))"
    using a by (simp add: audio_read_samples_def case_prod_beta res_def total_def n_def Let_def)
  have prod: "int (n div unat (channels d)) * uint (channels d) \<le> int n"
    unfolding uint_nat by (metis of_nat_mult of_nat_le_iff div_times_less_eq_dividend)
  have "int (n div unat (channels d)) \<le> int (unat maxFrames)"
    using ar by (simp only: of_nat_le_iff)
  then have "int (n div unat (channels d)) \<le> uint maxFrames"
    by (simp only: uint_nat)
  with prod show "\<exists>d' out ret.
         audio_read_samples (Some d) (Some buf) maxFrames = Inr (Some d', Some out, ret) \<and>
         0 \<le> ret \<and> ret \<le> uint maxFrames \<and>
         unat (available (ringBuffer d)) - unat (available (ringBuffer d'))
           \<le> unat maxFrames * unat (channels d) \<and>
         ret = int ((unat (available (ringBuffer d)) - unat (available (ringBuffer d')))
                      div unat (channels d)) \<and>
         ret * uint (channels d)
           \<le> int (unat (available (ringBuffer d)) - unat (available (ringBuffer d')))"
    using call ar drained by simp
qed

text \<open>
  The stereo device holds five samples. Asked for three frames it drains all five and
  returns two frames; with a null buffer, or asked for no frame, it returns
  \<open>AUDIO_INVALID_PARAM\<close> and stays as it is.
\<close>

theorem audio_read_samples_frames_witness:
  "channels stereo_device \<noteq> 0 \<and> rb_inv (ringBuffer stereo_device) \<and> (3 :: uint) \<noteq> 0 \<and>
   (\<exists>d' out ret.
      audio_read_samples (Some stereo_device) (Some [0, 0, 0, 0, 0, 0]) 3
        = Inr (Some d', Some out, ret) \<and>
      0 \<le> ret \<and> ret \<le> uint (3 :: uint) \<and>
      unat (available (ringBuffer stereo_device)) - unat (available (ringBuffer d'))
        \<le> unat (3 :: uint) * unat (channels stereo_device) \<and>
      ret = int ((unat (available (ringBuffer stereo_device)) - unat (available (ringBuffer d')))
                   div unat (channels stereo_device)) \<and>
      ret * uint (channels stereo_device)
        \<le> int (unat (available (ringBuffer stereo_device)) - unat (available (ringBuffer d')))) \<and>
   map_sum id snd (audio_read_samples (Some stereo_device) (Some [0, 0, 0, 0, 0, 0]) 3)
     = Inr (Some [1, 2, 3, 4, 5, 0], 2) \<and>
   audio_read_samples (Some stereo_device) None 3
     = Inr (Some stereo_device, None, AUDIO_INVALID_PARAM) \<and>
   audio_read_samples (Some stereo_device) (Some [0, 0]) 0
     = Inr (Some stereo_device, Some [0, 0], AUDIO_INVALID_PARAM)"
proof -
  have h: "channels stereo_device \<noteq> 0 \<and> rb_inv (ringBuffer stereo_device) \<and> (3 :: uint) \<noteq> 0"
    by (simp add: fixture_simps rb_inv_def run_simps)
  have e: "map_sum id snd (audio_read_samples (Some stereo_device) (Some [0, 0, 0, 0, 0, 0]) 3)
             = Inr (Some [1, 2, 3, 4, 5, 0], 2)"
    by (simp add: audio_read_samples_def fixture_simps run_simps)
  show ?thesis
    using h e
      audio_read_samples_frames [of stereo_device 3 "[0, 0, 0, 0, 0, 0]" None]
      audio_read_samples_frames [of stereo_device 0 "[]" "Some [0, 0]"]
    by blast
qed

subsection \<open>A failed start\<close>

text \<open>
  Claim C5, as stated, has every failed \<open>audio_start_recording\<close> leave the
  \<open>channels\<close> field as it was and put the error into \<open>errorMsg\<close>. On a new device a
  start with two channels that the backend refuses to open leaves \<open>channels = 2\<close>
  where it was 0; and a start with zero channels returns \<open>AUDIO_INVALID_PARAM\<close> while
  \<open>audio_error_message\<close> still answers that there is no error.
\<close>

theorem start_failure_counterexample:
  "snd (audio_start_recording (Some new_device) 0 2 48000 512 (Failed ''no device'') 512 Done)
     = AUDIO_ERROR \<and>
   map_option channels
     (fst (audio_start_recording (Some new_device) 0 2 48000 512 (Failed ''no device'') 512 Done))
     \<noteq> Some (channels new_device) \<and>
   snd (audio_start_recording (Some new_device) 0 0 48000 512 Done 512 Done)
     = AUDIO_INVALID_PARAM \<and>
   audio_error_message (fst (audio_start_recording (Some new_device) 0 0 48000 512 Done 512 Done))
     = ''No error''"
  by (simp add: audio_start_recording_def audio_error_message_def fixture_simps backend_simps)

text \<open>
  Claim C5, amended. Let the device have a backend handle. If \<open>channels\<close> or
  \<open>sampleRate\<close> is zero, \<open>audio_start_recording\<close> returns \<open>AUDIO_INVALID_PARAM\<close> and the
  device is unchanged in every field, \<open>errorMsg\<close> included. If the backend fails to open
  the stream, the call returns \<open>AUDIO_ERROR\<close>; the ring buffer and the state of the
  stream are as before, \<open>errorMsg\<close> holds the first 255 characters of the backend's
  diagnostic, and \<open>channels\<close> holds the requested number of channels. If the stream
  opens and the backend fails to start it, the same holds except that the stream is
  closed (which is its state before the call on a device that was not recording).
\<close>

theorem audio_start_recording_failure:
  "handle d = Some h \<Longrightarrow>
   (chans = 0 \<or> rate = 0 \<longrightarrow>
      audio_start_recording (Some d) dev_id chans rate frames opened granted started
        = (Some d, AUDIO_INVALID_PARAM)) \<and>
   (chans \<noteq> 0 \<and> rate \<noteq> 0 \<and> opened = Failed msg \<longrightarrow>
      (\<exists>d' h'. audio_start_recording (Some d) dev_id chans rate frames opened granted started
                 = (Some d', AUDIO_ERROR) \<and>
         handle d' = Some h' \<and> state h' = state h \<and> ringBuffer d' = ringBuffer d \<and>
         channels d' = chans \<and> errorMsg d' = take 255 msg)) \<and>
   (chans \<noteq> 0 \<and> rate \<noteq> 0 \<and> opened = Done \<and> started = Failed msg \<longrightarrow>
      (\<exists>d' h'. audio_start_recording (Some d) dev_id chans rate frames opened granted started
                 = (Some d', AUDIO_ERROR) \<and>
         handle d' = Some h' \<and> state h' = STREAM_CLOSED \<and> ringBuffer d' = ringBuffer d \<and>
         channels d' = chans \<and> errorMsg d' = take 255 msg))"
  by (auto simp: audio_start_recording_def backend_simps)

theorem audio_start_recording_failure_witness:
  "handle new_device = Some idle_backend \<and>
   audio_start_recording (Some new_device) 0 0 48000 512 Done 512 Done
     = (Some new_device, AUDIO_INVALID_PARAM) \<and>
   (\<exists>d' h'. audio_start_recording (Some new_device) 0 2 48000 512 (Failed ''no device'') 512 Done
              = (Some d', AUDIO_ERROR) \<and>
      handle d' = Some h' \<and> state h' = state idle_backend \<and>
      ringBuffer d' = ringBuffer new_device \<and> channels d' = 2 \<and>
      errorMsg d' = take 255 ''no device'') \<and>
   (\<exists>d' h'. audio_start_recording (Some new_device) 0 2 48000 512 Done 512 (Failed ''busy'')
              = (Some d', AUDIO_ERROR) \<and>
      handle d' = Some h' \<and> state h' = STREAM_CLOSED \<and>
      ringBuffer d' = ringBuffer new_device \<and> channels d' = 2 \<and>
      errorMsg d' = take 255 ''busy'')"
proof -
  have h: "handle new_device = Some idle_backend"
    by (simp add: new_device_def)
  show ?thesis
    using h
      audio_start_recording_failure [OF h, where chans = 0 and rate = 48000 and dev_id = 0
        and frames = 512 and opened = Done and granted = 512 and started = Done]
      audio_start_recording_failure [OF h, where chans = 2 and rate = 48000 and dev_id = 0
        and frames = 512 and opened = "Failed ''no device''" and granted = 512
        and started = Done and msg = "''no device''"]
      audio_start_recording_failure [OF h, where chans = 2 and rate = 48000 and dev_id = 0
        and frames = 512 and opened = Done and granted = 512
        and started = "Failed ''busy''" and msg = "''busy''"]
    by simp
qed

subsection \<open>The error text\<close>

text \<open>
  Claim C7, as stated, has \<open>audio_error_message\<close> report the no-error text after every
  successful start and the diagnostic after every failed one. On a new device, a start
  that the backend refuses with the diagnostic \<open>boom\<close> followed by a start that
  succeeds (it returns the buffer size 512) leaves the message \<open>boom\<close>; and a start
  with zero channels fails with \<open>AUDIO_INVALID_PARAM\<close> and leaves the no-error text.
\<close>

theorem error_message_counterexample:
  "snd (audio_start_recording
          (fst (audio_start_recording (Some new_device) 0 2 48000 512 (Failed ''boom'') 512 Done))
          0 2 48000 512 Done 512 Done) = 512 \<and>
   audio_error_message
     (fst (audio_start_recording
             (fst (audio_start_recording (Some new_device) 0 2 48000 512 (Failed ''boom'') 512 Done))
             0 2 48000 512 Done 512 Done)) = ''boom'' \<and>
   snd (audio_start_recording (Some new_device) 0 0 48000 512 Done 512 Done)
     = AUDIO_INVALID_PARAM \<and>
   audio_error_message (fst (audio_start_recording (Some new_device) 0 0 48000 512 Done 512 Done))
     = ''No error''"
  by (simp add: audio_start_recording_def audio_error_message_def fixture_simps backend_simps)

text \<open>
  Claim C7, amended. A successful \<open>audio_start_recording\<close> leaves the text that
  \<open>audio_error_message\<close> reports as it was before the call (the no-error text only if
  no earlier failure had set one). A start that fails in the backend, at opening or at
  starting the stream, makes it the first 255 characters of the backend's diagnostic
  (the no-error text if the diagnostic is empty). A start that fails for a missing
  handle or a zero \<open>channels\<close> or \<open>sampleRate\<close> leaves the text as it was.
\<close>

theorem audio_error_message_after_start:
  "(handle d = Some h \<and> chans \<noteq> 0 \<and> rate \<noteq> 0 \<and> opened = Done \<and> started = Done \<longrightarrow>
      audio_error_message
        (fst (audio_start_recording (Some d) dev_id chans rate frames opened granted started))
        = audio_error_message (Some d)) \<and>
   (handle d = Some h \<and> chans \<noteq> 0 \<and> rate \<noteq> 0 \<and>
      (opened = Failed msg \<or> opened = Done \<and> started = Failed msg) \<longrightarrow>
      audio_error_message
        (fst (audio_start_recording (Some d) dev_id chans rate frames opened granted started))
        = (if take 255 msg \<noteq> [] then take 255 msg else ''No error'')) \<and>
   (handle d = None \<or> chans = 0 \<or> rate = 0 \<longrightarrow>
      audio_error_message
        (fst (audio_start_recording (Some d) dev_id chans rate frames opened granted started))
        = audio_error_message (Some d))"
  by (auto simp: audio_start_recording_def audio_error_message_def backend_simps
      split: option.splits)

theorem audio_error_message_after_start_witness:
  "handle new_device = Some idle_backend \<and>
   audio_error_message
     (fst (audio_start_recording (Some new_device) 0 2 48000 512 Done 512 Done))
     = audio_error_message (Some new_device) \<and>
   audio_error_message
     (fst (audio_start_recording (Some new_device) 0 2 48000 512 (Failed ''boom'') 512 Done))
     = ''boom'' \<and>
   audio_error_message
     (fst (audio_start_recording (Some new_device) 0 2 48000 512 Done 512 (Failed ''busy'')))
     = ''busy'' \<and>
   audio_error_message
     (fst (audio_start_recording (Some new_device) 0 0 48000 512 Done 512 Done))
     = audio_error_message (Some new_device)"
proof -
  have h: "handle new_device = Some idle_backend"
    by (simp add: new_device_def)
  show ?thesis
    using h
      audio_error_message_after_start [where d = new_device and h = idle_backend
        and chans = 2 and rate = 48000 and dev_id = 0 and frames = 512
        and opened = Done and granted = 512 and started = Done]
      audio_error_message_after_start [where d = new_device and h = idle_backend
        and chans = 2 and rate = 48000 and dev_id = 0 and frames = 512
        and opened = "Failed ''boom''" and granted = 512 and started = Done
        and msg = "''boom''"]
      audio_error_message_after_start [where d = new_device and h = idle_backend
        and chans = 2 and rate = 48000 and dev_id = 0 and frames = 512
        and opened = Done and granted = 512 and started = "Failed ''busy''"
        and msg = "''busy''"]
      audio_error_message_after_start [where d = new_device and h = idle_backend
        and chans = 0 and rate = 48000 and dev_id = 0 and frames = 512
        and opened = Done and granted = 512 and started = Done]
    by simp
qed

subsection \<open>Stopping\<close>

text \<open>
  Claim C8. For every device, and whatever the backend answers to the stop requests, a
  second \<open>audio_stop\<close> right after a first changes nothing; \<open>audio_stop\<close> never
  touches the ring buffer, the \<open>channels\<close> field or \<open>errorMsg\<close> (it has no error to
  report); on a device with a handle it leaves the stream neither running nor open; and
  on a device whose stream is neither running nor open, such as one that was never
  started, it changes nothing at all.
\<close>

theorem audio_stop_idempotent:
  "audio_stop (audio_stop dev a) b = audio_stop dev a \<and>
   map_option ringBuffer (audio_stop dev a) = map_option ringBuffer dev \<and>
   map_option channels (audio_stop dev a) = map_option channels dev \<and>
   map_option errorMsg (audio_stop dev a) = map_option errorMsg dev \<and>
   (dev = Some d \<and> handle d = Some h \<longrightarrow>
      (\<exists>d' h'. audio_stop dev a = Some d' \<and> handle d' = Some h' \<and>
         \<not> rtaudio_is_stream_open h' \<and> \<not> rtaudio_is_stream_running h')) \<and>
   (dev = Some d \<and> handle d = Some h \<and>
      \<not> rtaudio_is_stream_running h \<and> \<not> rtaudio_is_stream_open h \<longrightarrow>
      audio_stop dev a = dev)"
  by (cases a) (auto simp: audio_stop_def backend_simps Let_def split: option.splits)

text \<open>
  The recording stereo device is stopped and closed by the first call, with its five
  samples still in the ring buffer, also when the backend reports the stop as failed;
  the new device, never started, is left as it is.
\<close>

theorem audio_stop_idempotent_witness:
  "audio_stop (audio_stop (Some stereo_device) Done) Done = audio_stop (Some stereo_device) Done \<and>
   audio_stop (audio_stop (Some stereo_device) (Failed ''late'')) Done
     = audio_stop (Some stereo_device) (Failed ''late'') \<and>
   map_option ringBuffer (audio_stop (Some stereo_device) Done) = Some (ringBuffer stereo_device) \<and>
   handle stereo_device = Some (idle_backend\<lparr>state := STREAM_RUNNING\<rparr>) \<and>
   (\<exists>d' h'. audio_stop (Some stereo_device) Done = Some d' \<and> handle d' = Some h' \<and>
      \<not> rtaudio_is_stream_open h' \<and> \<not> rtaudio_is_stream_running h') \<and>
   handle new_device = Some idle_backend \<and>
   \<not> rtaudio_is_stream_running idle_backend \<and> \<not> rtaudio_is_stream_open idle_backend \<and>
   audio_stop (Some new_device) Done = Some new_device"
proof -
  have h: "handle stereo_device = Some (idle_backend\<lparr>state := STREAM_RUNNING\<rparr>) \<and>
      handle new_device = Some idle_backend \<and>
      \<not> rtaudio_is_stream_running idle_backend \<and> \<not> rtaudio_is_stream_open idle_backend"
    by (simp add: fixture_simps backend_simps)
  show ?thesis
    using h
      audio_stop_idempotent [where dev = "Some stereo_device" and a = Done and b = Done
        and d = stereo_device and h = "idle_backend\<lparr>state := STREAM_RUNNING\<rparr>"]
      audio_stop_idempotent [where dev = "Some stereo_device" and a = "Failed ''late''"
        and b = Done and d = stereo_device and h = "idle_backend\<lparr>state := STREAM_RUNNING\<rparr>"]
      audio_stop_idempotent [where dev = "Some new_device" and a = Done and b = Done
        and d = new_device and h = idle_backend]
    by simp
qed

subsection \<open>No stream left open and unstarted\<close>

text \<open>
  Claim C9. If the backend opens the stream and then fails to start it,
  \<open>audio_start_recording\<close> returns \<open>AUDIO_ERROR\<close> with the stream closed. And
  whatever the arguments and the backend's answers, a call on a device whose stream is
  not open-but-unstarted does not leave it open-but-unstarted: the stream ends closed,
  or running, or as it was.
\<close>

theorem audio_start_recording_no_leak:
  "handle d = Some h \<Longrightarrow>
   (chans \<noteq> 0 \<and> rate \<noteq> 0 \<and> opened = Done \<and> started = Failed msg \<longrightarrow>
      (\<exists>d' h'. audio_start_recording (Some d) dev_id chans rate frames opened granted started
                 = (Some d', AUDIO_ERROR) \<and>
         handle d' = Some h' \<and> \<not> rtaudio_is_stream_open h')) \<and>
   (state h \<noteq> STREAM_STOPPED \<longrightarrow>
      (\<exists>d' h'. fst (audio_start_recording (Some d) dev_id chans rate frames opened granted started)
                 = Some d' \<and>
         handle d' = Some h' \<and> state h' \<noteq> STREAM_STOPPED))"
  by (cases opened; cases started)
    (auto simp: audio_start_recording_def backend_simps Let_def)

theorem audio_start_recording_no_leak_witness:
  "handle new_device = Some idle_backend \<and> state idle_backend \<noteq> STREAM_STOPPED \<and>
   (\<exists>d' h'. audio_start_recording (Some new_device) 0 2 48000 512 Done 512 (Failed ''busy'')
              = (Some d', AUDIO_ERROR) \<and>
      handle d' = Some h' \<and> \<not> rtaudio_is_stream_open h') \<and>
   (\<exists>d' h'. fst (audio_start_recording (Some new_device) 0 2 48000 512 Done 512 Done) = Some d' \<and>
      handle d' = Some h' \<and> state h' \<noteq> STREAM_STOPPED)"
proof -
  have h: "handle new_device = Some idle_backend"
    by (simp add: new_device_def)
  have s: "state idle_backend \<noteq> STREAM_STOPPED"
    by (simp add: idle_backend_def)
  show ?thesis
    using h s
      audio_start_recording_no_leak [OF h, where chans = 2 and rate = 48000 and dev_id = 0
        and frames = 512 and opened = Done and granted = 512
        and started = "Failed ''busy''" and msg = "''busy''"]
      audio_start_recording_no_leak [OF h, where chans = 2 and rate = 48000 and dev_id = 0
        and frames = 512 and opened = Done and granted = 512 and started = Done]
    by simp
qed

end
